theory Spec2Isabelle
  imports Complex_Main "HOL-Library.Sublist" "HOL-Library.AList" "HOL-Library.Word"
    "HOL-Library.Product_Lexorder"
begin

section \<open>Attendance analytics: chart cache, aggregation and chart endpoints\<close>

text \<open>
  A shallow embedding of \<^verbatim>\<open>attendance/views.py\<close> and \<^verbatim>\<open>attendance/models.py\<close>.

  Conventions of the embedding.
  \<^item> The cache directory \<^verbatim>\<open>CHART_CACHE_DIR\<close> is an association list from file names to file
    contents; \<^verbatim>\<open>os.listdir\<close> is the list of its names, \<^verbatim>\<open>os.path.exists\<close> and
    \<^verbatim>\<open>open(..., 'rb').read()\<close> are \<open>map_of\<close>, \<^verbatim>\<open>open(..., 'wb').write\<close> is
    \<open>AList.update\<close>, a successful \<^verbatim>\<open>os.remove\<close> is \<open>AList.delete\<close>.
  \<^item> The clock \<^verbatim>\<open>time.time()\<close> is a rational number of seconds and the division
    \<^verbatim>\<open>time.time() / cache_timeout\<close> is exact (the rounding of the floating-point quotient
    is outside the embedding).
  \<^item> Whether \<^verbatim>\<open>os.remove\<close> succeeds on a file is a parameter \<open>removable\<close> of the environment:
    the source wraps the call in \<^verbatim>\<open>try: ... except: pass\<close>.
  \<^item> Python exceptions are values of type \<open>error\<close>; a function that can raise returns
    \<open>error + 'a\<close>.
  \<^item> The rows of the \<^verbatim>\<open>Employee\<close> table, as \<^verbatim>\<open>Employee.objects.all().values()\<close> gives them, are a
    list of records that is a parameter of every view. Every row has every column, so a
    test \<^verbatim>\<open>'department' in df.columns\<close> holds exactly when there is a row.
  \<^item> The plotting library is a parameter \<open>plotlib\<close>: which drawing calls raise, what
    \<^verbatim>\<open>savefig\<close> encodes for a figure, and the image drawn by the handler of a failed render.
\<close>

subsection \<open>Python primitives\<close>

datatype error = ZeroDivisionError | Exception string

text \<open>\<^verbatim>\<open>str(e)\<close> of an exception.\<close>

fun str_error :: "error \<Rightarrow> string" where
  "str_error ZeroDivisionError = ''float division by zero''"
| "str_error (Exception msg) = msg"

text \<open>\<^verbatim>\<open>int(x)\<close> on a float truncates towards zero.\<close>

definition py_int :: "rat \<Rightarrow> int" where
  "py_int q = (if 0 \<le> q then \<lfloor>q\<rfloor> else \<lceil>q\<rceil>)"

definition decimal_digits :: string where
  "decimal_digits = ''0123456789''"

definition digit_char :: "nat \<Rightarrow> char" where
  "digit_char d = decimal_digits ! d"

text \<open>Decimal rendering of an integer, as \<^verbatim>\<open>f'{n}'\<close> gives it.\<close>

fun str_nat :: "nat \<Rightarrow> string" where
  "str_nat n = (if n < 10 then [digit_char n]
                else str_nat (n div 10) @ [digit_char (n mod 10)])"

declare str_nat.simps [simp del]

definition str_int :: "int \<Rightarrow> string" where
  "str_int i = (if i < 0 then CHR ''-'' # str_nat (nat (- i)) else str_nat (nat i))"

text \<open>\<^verbatim>\<open>s.startswith(p)\<close>.\<close>

definition startswith :: "string \<Rightarrow> string \<Rightarrow> bool" where
  "startswith s p = prefix p s"

subsection \<open>The chart cache\<close>

type_synonym bytes = "8 word list"

type_synonym cache_dir = "(string \<times> bytes) list"

text \<open>\<^verbatim>\<open>int(time.time() / cache_timeout)\<close>; dividing by zero raises.\<close>

definition bucket_index :: "rat \<Rightarrow> int \<Rightarrow> error + int" where
  "bucket_index now cache_timeout =
     (if cache_timeout = 0 then Inl ZeroDivisionError
      else Inr (py_int (now / of_int cache_timeout)))"

text \<open>\<^verbatim>\<open>f'chart_{chart_type}_{bucket}'\<close> and the file name \<^verbatim>\<open>f'{cache_key}.png'\<close>.\<close>

definition cache_key :: "string \<Rightarrow> int \<Rightarrow> string" where
  "cache_key chart_type b = ''chart_'' @ chart_type @ ''_'' @ str_int b"

definition cache_path :: "string \<Rightarrow> int \<Rightarrow> string" where
  "cache_path chart_type b = cache_key chart_type b @ ''.png''"

definition listdir :: "cache_dir \<Rightarrow> string list" where
  "listdir fs = map fst fs"

definition get_cached_chart :: "cache_dir \<Rightarrow> rat \<Rightarrow> string \<Rightarrow> int \<Rightarrow> error + bytes option" where
  "get_cached_chart fs now chart_type cache_timeout =
     (case bucket_index now cache_timeout of
        Inl e \<Rightarrow> Inl e
      | Inr b \<Rightarrow>
          (if cache_path chart_type b \<in> set (listdir fs)
           then Inr (map_of fs (cache_path chart_type b))
           else Inr None))"

text \<open>
  One iteration of the clean-up loop of \<^verbatim>\<open>save_cached_chart\<close>: a file whose name starts
  with \<^verbatim>\<open>chart_{chart_type}_\<close> and does not start with the current key is removed; when the
  removal raises, the exception is swallowed and the file stays.
\<close>

definition cleanup_file :: "(string \<Rightarrow> bool) \<Rightarrow> string \<Rightarrow> string \<Rightarrow> string \<Rightarrow> cache_dir \<Rightarrow> cache_dir" where
  "cleanup_file removable chart_type key file fs =
     (if startswith file (''chart_'' @ chart_type @ ''_'') \<and> \<not> startswith file key
      then (if removable file then AList.delete file fs else fs)
      else fs)"

definition save_cached_chart ::
  "(string \<Rightarrow> bool) \<Rightarrow> cache_dir \<Rightarrow> rat \<Rightarrow> string \<Rightarrow> bytes \<Rightarrow> int \<Rightarrow> error + cache_dir" where
  "save_cached_chart removable fs now chart_type image_data cache_timeout =
     (case bucket_index now cache_timeout of
        Inl e \<Rightarrow> Inl e
      | Inr b \<Rightarrow>
          Inr (AList.update (cache_path chart_type b) image_data
                 (fold (cleanup_file removable chart_type (cache_key chart_type b))
                    (listdir fs) fs)))"

subsection \<open>The Employee table\<close>

record date =
  year :: nat
  month :: nat
  day :: nat

record datetime =
  dt_date :: date
  hour :: nat
  minute :: nat
  second :: nat
  microsecond :: nat

record employee =
  emp_id :: nat
  first_name :: string
  last_name :: string
  email :: string
  phone_number :: string
  role :: string
  department :: string
  signature :: string
  time_posted :: datetime

subsection \<open>Aggregation\<close>

text \<open>
  \<^verbatim>\<open>Series.value_counts()\<close>: every distinct label with its number of occurrences, the most
  frequent first (labels of equal count are kept in the order of their first occurrence).
\<close>

definition value_counts :: "string list \<Rightarrow> (string \<times> nat) list" where
  "value_counts xs =
     sort_key (\<lambda>(l, c). - int c) (map (\<lambda>l. (l, count_list xs l)) (rev (remdups (rev xs))))"

text \<open>\<^verbatim>\<open>df.groupby('date').size()\<close>: the distinct dates in ascending order, each with its count.\<close>

definition groupby_size :: "date list \<Rightarrow> (date \<times> nat) list" where
  "groupby_size ds =
     map (\<lambda>d. (d, count_list ds d)) (sort_key (\<lambda>d. (year d, month d, day d)) (remdups ds))"

definition zfill :: "nat \<Rightarrow> string \<Rightarrow> string" where
  "zfill n s = replicate (n - length s) CHR ''0'' @ s"

text \<open>\<^verbatim>\<open>str(date)\<close>, the ISO format \<^verbatim>\<open>YYYY-MM-DD\<close>.\<close>

definition isoformat :: "date \<Rightarrow> string" where
  "isoformat d = zfill 4 (str_nat (year d)) @ ''-'' @ zfill 2 (str_nat (month d))
                   @ ''-'' @ zfill 2 (str_nat (day d))"

text \<open>
  The number a string of decimal digits denotes (\<^verbatim>\<open>int(s)\<close>), used to show that the
  renderings of two different dates differ.
\<close>

definition digit_value :: "char \<Rightarrow> nat" where
  "digit_value c = of_char c - 48"

definition decimal_value :: "string \<Rightarrow> nat" where
  "decimal_value s = foldl (\<lambda>a c. 10 * a + digit_value c) 0 s"

text \<open>The dict comprehension \<^verbatim>\<open>{str(date): count for date, count in daily_counts.items()}\<close>.\<close>

definition daily_attendance :: "employee list \<Rightarrow> (string \<times> nat) list" where
  "daily_attendance employees =
     foldl (\<lambda>acc (d, c). AList.update (isoformat d) c acc) []
       (groupby_size (map (\<lambda>e. dt_date (time_posted e)) employees))"

datatype json = JInt int | JStr string | JDict "(string \<times> nat) list"

text \<open>The body of the JSON response of \<^verbatim>\<open>DataAnalysisView.get\<close>, key by key.\<close>

definition DataAnalysisView_get :: "employee list \<Rightarrow> (string \<times> json) list" where
  "DataAnalysisView_get employees =
     (if employees = [] then
        [(''total_records'', JInt 0), (''message'', JStr ''No data available'')]
      else
        [(''total_records'', JInt (int (length employees))),
         (''checkin_vs_checkout'', JDict (value_counts (map signature employees))),
         (''department_distribution'', JDict (value_counts (map department employees))),
         (''role_distribution'', JDict (value_counts (map role employees))),
         (''daily_attendance'', JDict (daily_attendance employees))])"



subsection \<open>Chart endpoints\<close>

record http_response =
  status :: nat
  content_type :: string
  content :: bytes

text \<open>\<^verbatim>\<open>HttpResponse(data, content_type='image/png')\<close>: the status is 200.\<close>

definition png_response :: "bytes \<Rightarrow> http_response" where
  "png_response img = \<lparr>status = 200, content_type = ''image/png'', content = img\<rparr>"

datatype figure =
    Pie "(string \<times> nat) list"
  | Donut "(string \<times> nat) list"
  | Bars "(date \<times> nat) list"
  | Text string
  | Grid figure figure figure figure

record plotlib =
  draw :: "figure \<Rightarrow> error option"
  savefig :: "figure \<Rightarrow> error + bytes"
  error_image :: "string \<Rightarrow> bytes"

text \<open>\<^verbatim>\<open>daily_counts.tail(10)\<close> when there are more than ten days.\<close>

definition recent_days :: "(date \<times> nat) list \<Rightarrow> (date \<times> nat) list" where
  "recent_days daily_counts =
     (if length daily_counts > 10 then drop (length daily_counts - 10) daily_counts
      else daily_counts)"

definition department_figure :: "employee list \<Rightarrow> figure" where
  "department_figure employees =
     (if employees \<noteq> [] then
        (let dept_counts = value_counts (map department employees)
         in if dept_counts \<noteq> [] then Pie dept_counts else Text ''No department data'')
      else Text ''No data available'')"

definition role_figure :: "employee list \<Rightarrow> figure" where
  "role_figure employees =
     (if employees \<noteq> [] then
        (let role_counts = value_counts (map role employees)
         in if role_counts \<noteq> [] then Pie role_counts else Text ''No role data'')
      else Text ''No data available'')"

text \<open>
  The attendance and signature charts draw inside an inner \<^verbatim>\<open>try\<close>: when a drawing call
  raises, the figure shows the error text instead, and the render goes on.
\<close>

definition attendance_figure :: "plotlib \<Rightarrow> string \<Rightarrow> employee list \<Rightarrow> figure" where
  "attendance_figure lib error_prefix employees =
     (if employees \<noteq> [] then
        (let bars = Bars (recent_days (groupby_size (map (\<lambda>e. dt_date (time_posted e)) employees)))
         in case draw lib bars of
              Some e \<Rightarrow> Text (error_prefix @ str_error e)
            | None \<Rightarrow> bars)
      else Text ''No attendance data'')"

definition signature_figure :: "plotlib \<Rightarrow> employee list \<Rightarrow> figure" where
  "signature_figure lib employees =
     (if employees \<noteq> [] then
        (let signature_counts = value_counts (map signature employees);
             fig = (if signature_counts \<noteq> [] then Donut signature_counts
                    else Text ''No signature data'')
         in case draw lib fig of
              Some e \<Rightarrow> Text (''Error: '' @ str_error e)
            | None \<Rightarrow> fig)
      else Text ''No signature data'')"

text \<open>
  The body of the outer \<^verbatim>\<open>try\<close> of a chart view, up to \<^verbatim>\<open>chart_data = buf.getvalue()\<close>:
  \<open>Inl e\<close> when an exception \<open>e\<close> escapes it.
\<close>

definition render :: "plotlib \<Rightarrow> figure \<Rightarrow> error + bytes" where
  "render lib fig = (case draw lib fig of Some e \<Rightarrow> Inl e | None \<Rightarrow> savefig lib fig)"

definition department_render :: "plotlib \<Rightarrow> employee list \<Rightarrow> error + bytes" where
  "department_render lib employees = render lib (department_figure employees)"

definition role_render :: "plotlib \<Rightarrow> employee list \<Rightarrow> error + bytes" where
  "role_render lib employees = render lib (role_figure employees)"

definition attendance_render :: "plotlib \<Rightarrow> employee list \<Rightarrow> error + bytes" where
  "attendance_render lib employees = savefig lib (attendance_figure lib ''Error: '' employees)"

definition signature_render :: "plotlib \<Rightarrow> employee list \<Rightarrow> error + bytes" where
  "signature_render lib employees = savefig lib (signature_figure lib employees)"

definition combined_render :: "plotlib \<Rightarrow> employee list \<Rightarrow> error + bytes" where
  "combined_render lib employees =
     (case draw lib (department_figure employees) of
        Some e \<Rightarrow> Inl e
      | None \<Rightarrow>
          (case draw lib (role_figure employees) of
             Some e \<Rightarrow> Inl e
           | None \<Rightarrow>
               savefig lib
                 (Grid (department_figure employees) (role_figure employees)
                    (attendance_figure lib ''Error generating chart: '' employees)
                    (signature_figure lib employees))))"

text \<open>
  The \<^verbatim>\<open>try\<close> and \<^verbatim>\<open>except\<close> of a chart view: run the body, store its image and return it;
  when an exception reaches the \<^verbatim>\<open>except\<close>, return the image of the error text. The result
  is what the view returns and the cache directory afterwards.
\<close>

definition render_and_store ::
  "string \<Rightarrow> string \<Rightarrow> (plotlib \<Rightarrow> employee list \<Rightarrow> error + bytes) \<Rightarrow>
   plotlib \<Rightarrow> (string \<Rightarrow> bool) \<Rightarrow> employee list \<Rightarrow> rat \<Rightarrow> cache_dir \<Rightarrow>
   (error + http_response) \<times> cache_dir" where
  "render_and_store chart_type error_prefix body lib removable employees t_store fs =
     (case body lib employees of
        Inl e \<Rightarrow> (Inr (png_response (error_image lib (error_prefix @ str_error e))), fs)
      | Inr chart_data \<Rightarrow>
          (case save_cached_chart removable fs t_store chart_type chart_data 60 of
             Inl e \<Rightarrow> (Inr (png_response (error_image lib (error_prefix @ str_error e))), fs)
           | Inr fs' \<Rightarrow> (Inr (png_response chart_data), fs')))"

text \<open>
  The shape shared by the five chart views: the lookup, outside the \<^verbatim>\<open>try\<close> (an exception
  \<open>e\<close> of the lookup escapes the view: \<open>Inl e\<close>); \<^verbatim>\<open>if cached_chart:\<close> serves a cached image
  that is present and not empty; otherwise the chart is rendered.
\<close>

definition chart_view ::
  "string \<Rightarrow> string \<Rightarrow> (plotlib \<Rightarrow> employee list \<Rightarrow> error + bytes) \<Rightarrow>
   plotlib \<Rightarrow> (string \<Rightarrow> bool) \<Rightarrow> employee list \<Rightarrow> rat \<Rightarrow> rat \<Rightarrow> cache_dir \<Rightarrow>
   (error + http_response) \<times> cache_dir" where
  "chart_view chart_type error_prefix body lib removable employees t_lookup t_store fs =
     (case get_cached_chart fs t_lookup chart_type 60 of
        Inl e \<Rightarrow> (Inl e, fs)
      | Inr None \<Rightarrow>
          render_and_store chart_type error_prefix body lib removable employees t_store fs
      | Inr (Some cached_chart) \<Rightarrow>
          (if cached_chart \<noteq> [] then (Inr (png_response cached_chart), fs)
           else render_and_store chart_type error_prefix body lib removable employees t_store fs))"

definition DataVisualizationView_get ::
  "plotlib \<Rightarrow> (string \<Rightarrow> bool) \<Rightarrow> employee list \<Rightarrow> rat \<Rightarrow> rat \<Rightarrow> cache_dir \<Rightarrow>
   (error + http_response) \<times> cache_dir" where
  "DataVisualizationView_get = chart_view ''combined'' ''Error generating charts: '' combined_render"

definition department_chart ::
  "plotlib \<Rightarrow> (string \<Rightarrow> bool) \<Rightarrow> employee list \<Rightarrow> rat \<Rightarrow> rat \<Rightarrow> cache_dir \<Rightarrow>
   (error + http_response) \<times> cache_dir" where
  "department_chart = chart_view ''departments'' ''Error generating chart: '' department_render"

definition role_chart ::
  "plotlib \<Rightarrow> (string \<Rightarrow> bool) \<Rightarrow> employee list \<Rightarrow> rat \<Rightarrow> rat \<Rightarrow> cache_dir \<Rightarrow>
   (error + http_response) \<times> cache_dir" where
  "role_chart = chart_view ''roles'' ''Error generating chart: '' role_render"

definition attendance_chart ::
  "plotlib \<Rightarrow> (string \<Rightarrow> bool) \<Rightarrow> employee list \<Rightarrow> rat \<Rightarrow> rat \<Rightarrow> cache_dir \<Rightarrow>
   (error + http_response) \<times> cache_dir" where
  "attendance_chart = chart_view ''attendance'' ''Error generating chart: '' attendance_render"

definition signature_chart ::
  "plotlib \<Rightarrow> (string \<Rightarrow> bool) \<Rightarrow> employee list \<Rightarrow> rat \<Rightarrow> rat \<Rightarrow> cache_dir \<Rightarrow>
   (error + http_response) \<times> cache_dir" where
  "signature_chart = chart_view ''signatures'' ''Error generating chart: '' signature_render"

text \<open>
  The five chart views of \<^verbatim>\<open>urls.py\<close> (\<^verbatim>\<open>visualization/\<close>, \<^verbatim>\<open>chart/departments/\<close>,
  \<^verbatim>\<open>chart/roles/\<close>, \<^verbatim>\<open>chart/attendance/\<close>, \<^verbatim>\<open>chart/signatures/\<close>), each with its chart type,
  the text its handler puts before the error, and the body of its \<^verbatim>\<open>try\<close>.
\<close>

definition chart_views ::
  "(string \<times> string \<times> (plotlib \<Rightarrow> employee list \<Rightarrow> error + bytes) \<times>
    (plotlib \<Rightarrow> (string \<Rightarrow> bool) \<Rightarrow> employee list \<Rightarrow> rat \<Rightarrow> rat \<Rightarrow> cache_dir \<Rightarrow>
       (error + http_response) \<times> cache_dir)) list" where
  "chart_views =
     [(''combined'', ''Error generating charts: '', combined_render, DataVisualizationView_get),
      (''departments'', ''Error generating chart: '', department_render, department_chart),
      (''roles'', ''Error generating chart: '', role_render, role_chart),
      (''attendance'', ''Error generating chart: '', attendance_render, attendance_chart),
      (''signatures'', ''Error generating chart: '', signature_render, signature_chart)]"

text \<open>
  Two plotting libraries used to instantiate the theorems on the chart views: one whose
  \<^verbatim>\<open>savefig\<close> raises, one that encodes every figure.
\<close>

definition failing_plotlib :: plotlib where
  "failing_plotlib =
     \<lparr>draw = (\<lambda>fig. None),
      savefig = (\<lambda>fig. Inl (Exception ''no memory'')),
      error_image = (\<lambda>text. map (\<lambda>c. of_nat (of_char c)) text)\<rparr>"

definition working_plotlib :: plotlib where
  "working_plotlib =
     \<lparr>draw = (\<lambda>fig. None),
      savefig = (\<lambda>fig. Inr (case fig of Text t \<Rightarrow> [137, 80, 78, 71, 0] | _ \<Rightarrow> [137, 80, 78, 71, 1])),
      error_image = (\<lambda>text. map (\<lambda>c. of_nat (of_char c)) text)\<rparr>"

section \<open>Properties of the chart cache\<close>

subsection \<open>The clean-up loop and the lookup\<close>

lemma map_of_cleanup_file:
  "map_of (cleanup_file rm ct key f fs) n =
     (if n = f \<and> startswith n (''chart_'' @ ct @ ''_'') \<and> \<not> startswith n key \<and> rm n
      then None else map_of fs n)"
proof (cases "startswith f (''chart_'' @ ct @ ''_'') \<and> \<not> startswith f key \<and> rm f")
  case True
  then have "cleanup_file rm ct key f fs = AList.delete f fs"
    by (simp add: cleanup_file_def)
  with True show ?thesis by (simp add: delete_conv)
next
  case False
  then have "cleanup_file rm ct key f fs = fs"
    by (auto simp: cleanup_file_def)
  with False show ?thesis by auto
qed

lemma map_of_fold_cleanup:
  "map_of (fold (cleanup_file rm ct key) names fs) n =
     (if n \<in> set names \<and> startswith n (''chart_'' @ ct @ ''_'') \<and> \<not> startswith n key \<and> rm n
      then None else map_of fs n)"
proof (induction names arbitrary: fs)
  case Nil
  then show ?case by simp
next
  case (Cons f names)
  have "map_of (fold (cleanup_file rm ct key) (f # names) fs) n =
        map_of (fold (cleanup_file rm ct key) names (cleanup_file rm ct key f fs)) n"
    by simp
  also have "\<dots> = (if n \<in> set names \<and> startswith n (''chart_'' @ ct @ ''_'')
                        \<and> \<not> startswith n key \<and> rm n
                    then None else map_of (cleanup_file rm ct key f fs) n)"
    by (rule Cons.IH)
  also have "\<dots> = (if n \<in> set (f # names) \<and> startswith n (''chart_'' @ ct @ ''_'')
                        \<and> \<not> startswith n key \<and> rm n
                    then None else map_of fs n)"
    unfolding map_of_cleanup_file by auto
  finally show ?case .
qed

lemma get_cached_chart_eq:
  "bucket_index now w = Inr b \<Longrightarrow>
   get_cached_chart fs now ct w = Inr (map_of fs (cache_path ct b))"
  using map_of_eq_None_iff[of fs "cache_path ct b"]
  by (auto simp: get_cached_chart_def listdir_def)

subsection \<open>Decimal rendering of bucket indices\<close>

lemma length_decimal_digits: "length decimal_digits = 10"
  by (simp add: decimal_digits_def)

lemma distinct_decimal_digits: "distinct decimal_digits"
  by (simp add: decimal_digits_def)

lemma minus_not_digit: "CHR ''-'' \<notin> set decimal_digits"
  by (simp add: decimal_digits_def)

lemma dot_not_digit: "CHR ''.'' \<notin> set decimal_digits"
  by (simp add: decimal_digits_def)

lemma digit_char_digit: "d < 10 \<Longrightarrow> digit_char d \<in> set decimal_digits"
  unfolding digit_char_def by (rule nth_mem) (simp add: length_decimal_digits)

lemma digit_char_inj: "d < 10 \<Longrightarrow> e < 10 \<Longrightarrow> digit_char d = digit_char e \<Longrightarrow> d = e"
  unfolding digit_char_def
  using distinct_decimal_digits by (simp add: nth_eq_iff_index_eq length_decimal_digits)

lemma str_nat_small: "n < 10 \<Longrightarrow> str_nat n = [digit_char n]"
  by (subst str_nat.simps) simp

lemma str_nat_large:
  "\<not> n < 10 \<Longrightarrow> str_nat n = str_nat (n div 10) @ [digit_char (n mod 10)]"
  by (subst str_nat.simps) simp

lemma str_nat_digits: "c \<in> set (str_nat n) \<Longrightarrow> c \<in> set decimal_digits"
proof (induction n rule: str_nat.induct)
  case (1 n)
  show ?case
  proof (cases "n < 10")
    case True
    with "1.prems" show ?thesis by (simp add: str_nat_small digit_char_digit)
  next
    case False
    with "1.prems" have "c \<in> set (str_nat (n div 10)) \<or> c = digit_char (n mod 10)"
      by (auto simp: str_nat_large)
    then show ?thesis
    proof
      assume "c \<in> set (str_nat (n div 10))"
      then show ?thesis by (rule "1.IH"[OF False])
    next
      assume "c = digit_char (n mod 10)"
      then show ?thesis by (simp add: digit_char_digit)
    qed
  qed
qed

lemma str_nat_nonempty: "str_nat n \<noteq> []"
  by (cases "n < 10") (simp_all add: str_nat_small str_nat_large)

lemma length_str_nat_one: "length (str_nat n) = Suc 0 \<longleftrightarrow> n < 10"
proof (cases "n < 10")
  case True
  have "length (str_nat n) = Suc 0" unfolding str_nat_small[OF True] by simp
  with True show ?thesis by simp
next
  case False
  have "str_nat (n div 10) \<noteq> []" by (rule str_nat_nonempty)
  then have "length (str_nat (n div 10)) \<noteq> 0" by simp
  then have "length (str_nat n) \<noteq> Suc 0" unfolding str_nat_large[OF False] by simp
  with False show ?thesis by simp
qed

lemma str_nat_inj: "str_nat m = str_nat n \<Longrightarrow> m = n"
proof (induction n arbitrary: m rule: str_nat.induct)
  case (1 n)
  from "1.prems" have len: "length (str_nat m) = length (str_nat n)" by simp
  show ?case
  proof (cases "n < 10")
    case True
    then have "length (str_nat n) = Suc 0" by (simp add: length_str_nat_one)
    with len have "length (str_nat m) = Suc 0" by simp
    then have m: "m < 10" by (simp add: length_str_nat_one)
    have "[digit_char m] = [digit_char n]"
      using "1.prems" unfolding str_nat_small[OF m] str_nat_small[OF True] .
    then have "digit_char m = digit_char n" by simp
    with m True show ?thesis by (rule digit_char_inj)
  next
    case False
    then have "length (str_nat n) \<noteq> Suc 0" by (simp add: length_str_nat_one)
    with len have "length (str_nat m) \<noteq> Suc 0" by simp
    then have m: "\<not> m < 10" by (simp add: length_str_nat_one)
    have "str_nat (m div 10) @ [digit_char (m mod 10)] =
          str_nat (n div 10) @ [digit_char (n mod 10)]"
      using "1.prems" unfolding str_nat_large[OF m] str_nat_large[OF False] .
    then have a: "str_nat (m div 10) = str_nat (n div 10)"
      and b: "digit_char (m mod 10) = digit_char (n mod 10)" by simp_all
    from "1.IH"[OF False a] have "m div 10 = n div 10" .
    moreover from b have "m mod 10 = n mod 10"
      using digit_char_inj[of "m mod 10" "n mod 10"] by simp
    ultimately show ?thesis by (metis div_mult_mod_eq)
  qed
qed

lemma str_nat_prefix_le: "prefix (str_nat m) (str_nat n) \<Longrightarrow> m \<le> n"
proof (induction n rule: str_nat.induct)
  case (1 n)
  show ?case
  proof (cases "n < 10")
    case True
    from "1.prems" str_nat_nonempty[of m] have "str_nat m = str_nat n"
      unfolding str_nat_small[OF True] by (cases "str_nat m") (auto simp: prefix_Cons)
    then show ?thesis by (auto dest: str_nat_inj)
  next
    case False
    from "1.prems" have "prefix (str_nat m) (str_nat (n div 10)) \<or> str_nat m = str_nat n"
      unfolding str_nat_large[OF False] by auto
    then show ?thesis
    proof
      assume "prefix (str_nat m) (str_nat (n div 10))"
      from "1.IH"[OF False this] show ?thesis by (meson div_le_dividend le_trans)
    next
      assume "str_nat m = str_nat n"
      then show ?thesis by (auto dest: str_nat_inj)
    qed
  qed
qed

lemma str_int_no_dot: "CHR ''.'' \<notin> set (str_int i)"
proof
  assume "CHR ''.'' \<in> set (str_int i)"
  then have "CHR ''.'' \<in> set (str_nat (nat (- i))) \<or> CHR ''.'' \<in> set (str_nat (nat i))"
    by (auto simp: str_int_def split: if_splits)
  then have "CHR ''.'' \<in> set decimal_digits" by (auto dest: str_nat_digits)
  with dot_not_digit show False by simp
qed

lemma str_nat_no_minus: "str_nat n \<noteq> CHR ''-'' # s"
proof
  assume "str_nat n = CHR ''-'' # s"
  then have "CHR ''-'' \<in> set (str_nat n)" by simp
  then have "CHR ''-'' \<in> set decimal_digits" by (rule str_nat_digits)
  with minus_not_digit show False by simp
qed

lemma str_int_inj: "str_int i = str_int j \<Longrightarrow> i = j"
proof -
  assume eq: "str_int i = str_int j"
  show "i = j"
  proof (cases "i < 0")
    case True
    show ?thesis
    proof (cases "j < 0")
      case j: True
      with True eq have "str_nat (nat (- i)) = str_nat (nat (- j))" by (simp add: str_int_def)
      then have "nat (- i) = nat (- j)" by (rule str_nat_inj)
      with True j show ?thesis by simp
    next
      case j: False
      with True eq have "str_nat (nat j) = CHR ''-'' # str_nat (nat (- i))"
        by (simp add: str_int_def)
      with str_nat_no_minus show ?thesis by blast
    qed
  next
    case False
    show ?thesis
    proof (cases "j < 0")
      case j: True
      with False eq have "str_nat (nat i) = CHR ''-'' # str_nat (nat (- j))"
        by (simp add: str_int_def)
      with str_nat_no_minus show ?thesis by blast
    next
      case j: False
      with False eq have "str_nat (nat i) = str_nat (nat j)" by (simp add: str_int_def)
      then have "nat i = nat j" by (rule str_nat_inj)
      with False j show ?thesis by simp
    qed
  qed
qed

subsection \<open>File names of cache entries\<close>

lemma cache_path_inj: "cache_path ct b = cache_path ct b' \<Longrightarrow> b = b'"
  by (rule str_int_inj) (simp add: cache_path_def cache_key_def)

lemma str_int_prefix_le:
  assumes "0 \<le> b'" "b' < b"
  shows "\<not> prefix (str_int b) (str_int b')"
proof
  assume "prefix (str_int b) (str_int b')"
  with assms have "prefix (str_nat (nat b)) (str_nat (nat b'))" by (simp add: str_int_def)
  then have "nat b \<le> nat b'" by (rule str_nat_prefix_le)
  with assms show False by simp
qed

lemma prefix_str_int_png:
  "prefix (str_int b) (str_int b' @ ''.png'') \<longleftrightarrow> prefix (str_int b) (str_int b')"
proof
  assume "prefix (str_int b) (str_int b' @ ''.png'')"
  then have "prefix (str_int b) (str_int b') \<or>
             (\<exists>us. str_int b = str_int b' @ us \<and> prefix us ''.png'')"
    by (simp only: prefix_append)
  then show "prefix (str_int b) (str_int b')"
  proof
    assume "prefix (str_int b) (str_int b')"
    then show ?thesis .
  next
    assume "\<exists>us. str_int b = str_int b' @ us \<and> prefix us ''.png''"
    then obtain us where us: "str_int b = str_int b' @ us" "prefix us ''.png''"
      by blast
    show ?thesis
    proof (cases us)
      case Nil
      with us show ?thesis by simp
    next
      case (Cons u vs)
      with us(2) have "u = CHR ''.''" by (simp add: prefix_Cons)
      with us(1) Cons have "CHR ''.'' \<in> set (str_int b)" by simp
      with str_int_no_dot[of b] show ?thesis by simp
    qed
  qed
next
  assume "prefix (str_int b) (str_int b')"
  then show "prefix (str_int b) (str_int b' @ ''.png'')" by (rule prefix_prefix)
qed

lemma startswith_cache_path_prefix:
  "startswith (cache_path ct b) (''chart_'' @ ct @ ''_'')"
  by (simp add: startswith_def cache_path_def cache_key_def)

lemma startswith_cache_path_key:
  "startswith (cache_path ct b') (cache_key ct b) \<longleftrightarrow> prefix (str_int b) (str_int b')"
proof -
  have "startswith (cache_path ct b') (cache_key ct b) \<longleftrightarrow>
        prefix ((''chart_'' @ ct @ ''_'') @ str_int b) ((''chart_'' @ ct @ ''_'') @ str_int b' @ ''.png'')"
    by (simp add: startswith_def cache_path_def cache_key_def)
  also have "\<dots> \<longleftrightarrow> prefix (str_int b) (str_int b' @ ''.png'')"
    by (rule same_prefix_prefix)
  finally show ?thesis by (simp only: prefix_str_int_png)
qed

lemma map_of_save_cached_chart:
  assumes "save_cached_chart rm fs now ct img w = Inr fs'" "bucket_index now w = Inr b"
  shows "map_of fs' n =
     (if n = cache_path ct b then Some img
      else if n \<in> set (listdir fs) \<and> startswith n (''chart_'' @ ct @ ''_'')
              \<and> \<not> startswith n (cache_key ct b) \<and> rm n
      then None else map_of fs n)"
proof -
  from assms have fs': "fs' = AList.update (cache_path ct b) img
                 (fold (cleanup_file rm ct (cache_key ct b)) (listdir fs) fs)"
    by (simp add: save_cached_chart_def)
  show ?thesis
    unfolding fs' by (simp add: update_conv map_of_fold_cleanup)
qed

subsection \<open>Store followed by lookup\<close>

text \<open>
  Claim C3. For every chart type, window and byte string \<open>B\<close>: once
  \<open>save_cached_chart\<close> has returned, a lookup of the same chart type and window at a
  time of the same bucket returns exactly \<open>B\<close>, whatever the cache held before and
  whether or not the removals of the clean-up loop succeeded.
\<close>

theorem store_then_lookup:
  assumes "save_cached_chart removable fs t ct B w = Inr fs'"
      and "bucket_index t' w = bucket_index t w"
  shows "get_cached_chart fs' t' ct w = Inr (Some B)"
proof -
  from assms(1) obtain b where b: "bucket_index t w = Inr b"
    by (auto simp: save_cached_chart_def split: sum.splits)
  with assms(2) have "get_cached_chart fs' t' ct w = Inr (map_of fs' (cache_path ct b))"
    by (simp add: get_cached_chart_eq)
  also have "map_of fs' (cache_path ct b) = Some B"
    by (simp add: map_of_save_cached_chart[OF assms(1) b])
  finally show ?thesis .
qed

theorem store_then_lookup_witness:
  "save_cached_chart ((\<noteq>) ''chart_departments_4.png'')
      [(''chart_departments_4.png'', [1])] 300 ''departments'' [7, 8] 60
     = Inr [(''chart_departments_4.png'', [1]), (''chart_departments_5.png'', [7, 8])]
   \<and> bucket_index (719 / 2) 60 = bucket_index 300 60
   \<and> get_cached_chart [(''chart_departments_4.png'', [1]), (''chart_departments_5.png'', [7, 8])]
        (719 / 2) ''departments'' 60 = Inr (Some [7, 8])"
proof -
  have h1: "save_cached_chart ((\<noteq>) ''chart_departments_4.png'')
      [(''chart_departments_4.png'', [1])] 300 ''departments'' [7, 8] 60
     = Inr [(''chart_departments_4.png'', [1]), (''chart_departments_5.png'', [7, 8])]"
    by code_simp
  have h2: "bucket_index (719 / 2) 60 = bucket_index 300 60"
    by code_simp
  from store_then_lookup[OF h1 h2] h1 h2 show ?thesis by simp
qed

subsection \<open>Lookups are repeatable within a bucket\<close>

text \<open>
  Claim C9. On a fixed cache directory, two lookups of the same chart type and window at
  two times of the same bucket give the same result: both absent, or both the same bytes
  (\<open>get_cached_chart\<close> only reads the directory, so there is no state to thread between
  the two calls).
\<close>

theorem lookup_same_bucket:
  assumes "bucket_index t1 w = bucket_index t2 w"
  shows "get_cached_chart fs t1 ct w = get_cached_chart fs t2 ct w"
  using assms by (simp add: get_cached_chart_def)

theorem lookup_same_bucket_witness:
  "bucket_index 300 60 = bucket_index (719 / 2) 60
   \<and> get_cached_chart [(''chart_roles_5.png'', [3])] 300 ''roles'' 60 = Inr (Some [3])
   \<and> get_cached_chart [(''chart_roles_5.png'', [3])] (719 / 2) ''roles'' 60 = Inr (Some [3])"
proof -
  have h: "bucket_index 300 60 = bucket_index (719 / 2) 60" by code_simp
  have v: "get_cached_chart [(''chart_roles_5.png'', [3])] 300 ''roles'' 60 = Inr (Some [3])"
    by code_simp
  from lookup_same_bucket[OF h, of "[(''chart_roles_5.png'', [3])]" "''roles''"] h v
  show ?thesis by simp
qed

subsection \<open>The lookup reads exactly one key\<close>

lemma bucket_index_floor:
  assumes "0 \<le> now" "0 < w"
  shows "bucket_index now w = Inr \<lfloor>now / of_int w\<rfloor>"
proof -
  from assms have "0 \<le> now / of_int w" by simp
  with assms show ?thesis by (simp add: bucket_index_def py_int_def)
qed

text \<open>
  Claim C4. For a clock reading that is not negative and a positive window, the lookup
  computes the bucket \<open>\<lfloor>now / window\<rfloor>\<close>, builds the file name from the chart type and
  that bucket, and returns what the directory holds under exactly that name: the stored
  bytes when the entry exists, absent otherwise. File names of different buckets differ,
  so the entry of another bucket of the same chart type is never the one returned.
\<close>

theorem get_cached_chart_exact_key:
  assumes "0 \<le> now" "0 < w"
  shows "get_cached_chart fs now ct w = Inr (map_of fs (cache_path ct \<lfloor>now / of_int w\<rfloor>))
       \<and> (\<forall>b'. b' \<noteq> \<lfloor>now / of_int w\<rfloor> \<longrightarrow>
              cache_path ct b' \<noteq> cache_path ct \<lfloor>now / of_int w\<rfloor>)"
proof
  show "get_cached_chart fs now ct w = Inr (map_of fs (cache_path ct \<lfloor>now / of_int w\<rfloor>))"
    by (rule get_cached_chart_eq) (rule bucket_index_floor[OF assms])
next
  show "\<forall>b'. b' \<noteq> \<lfloor>now / of_int w\<rfloor> \<longrightarrow>
              cache_path ct b' \<noteq> cache_path ct \<lfloor>now / of_int w\<rfloor>"
    by (blast dest: cache_path_inj)
qed

theorem get_cached_chart_exact_key_witness:
  "(0::rat) \<le> 719 / 2 \<and> (0::int) < 60
   \<and> get_cached_chart [(''chart_roles_4.png'', [1]), (''chart_roles_5.png'', [2]),
                        (''chart_roles_50.png'', [3])] (719 / 2) ''roles'' 60 = Inr (Some [2])
   \<and> cache_path ''roles'' 4 \<noteq> cache_path ''roles'' \<lfloor>(719 / 2 :: rat) / of_int 60\<rfloor>"
proof -
  have h1: "(0::rat) \<le> 719 / 2" by simp
  have h2: "(0::int) < 60" by simp
  have e: "map_of [(''chart_roles_4.png'', [1::8 word]), (''chart_roles_5.png'', [2]),
                   (''chart_roles_50.png'', [3])]
              (cache_path ''roles'' \<lfloor>(719 / 2 :: rat) / of_int 60\<rfloor>) = Some [2]"
    by code_simp
  have n: "(4::int) \<noteq> \<lfloor>(719 / 2 :: rat) / of_int 60\<rfloor>" by code_simp
  from get_cached_chart_exact_key[OF h1 h2, of "[(''chart_roles_4.png'', [1]),
        (''chart_roles_5.png'', [2]), (''chart_roles_50.png'', [3])]" "''roles''"]
  have "get_cached_chart [(''chart_roles_4.png'', [1]), (''chart_roles_5.png'', [2]),
                        (''chart_roles_50.png'', [3])] (719 / 2) ''roles'' 60
          = Inr (map_of [(''chart_roles_4.png'', [1]), (''chart_roles_5.png'', [2]),
                   (''chart_roles_50.png'', [3])]
              (cache_path ''roles'' \<lfloor>(719 / 2 :: rat) / of_int 60\<rfloor>))"
    and "cache_path ''roles'' 4 \<noteq> cache_path ''roles'' \<lfloor>(719 / 2 :: rat) / of_int 60\<rfloor>"
    using n by blast+
  with e h1 h2 show ?thesis by (simp only:) simp
qed

subsection \<open>What the clean-up of a store removes\<close>

lemma entry_listed: "map_of fs n \<noteq> None \<longleftrightarrow> n \<in> set (listdir fs)"
  by (simp add: listdir_def map_of_eq_None_iff)

lemma stale_entry_removed:
  assumes s: "save_cached_chart rm fs now ct img w = Inr fs'"
      and b: "bucket_index now w = Inr b"
      and r: "rm (cache_path ct b')"
      and p: "\<not> prefix (str_int b) (str_int b')"
  shows "map_of fs' (cache_path ct b') = None"
proof -
  from p have ne: "cache_path ct b' \<noteq> cache_path ct b" by (auto dest: cache_path_inj)
  from p have k: "\<not> startswith (cache_path ct b') (cache_key ct b)"
    by (simp only: startswith_cache_path_key) simp
  show ?thesis
  proof (cases "cache_path ct b' \<in> set (listdir fs)")
    case True
    with ne k r startswith_cache_path_prefix[of ct b'] show ?thesis
      by (simp add: map_of_save_cached_chart[OF s b])
  next
    case False
    then have "map_of fs (cache_path ct b') = None" using entry_listed[of fs] by blast
    with ne show ?thesis by (simp add: map_of_save_cached_chart[OF s b])
  qed
qed

text \<open>
  Claim C1, as stated, fails. The clean-up loop swallows a failing \<^verbatim>\<open>os.remove\<close>, so a
  stale entry whose removal fails survives the store (first conjunct: bucket 5 is
  written, the entry of bucket 4 stays); and the loop keeps every file whose name starts
  with the current key, so the entry of bucket 50 survives a store into bucket 5 (second
  conjunct) although every removal succeeds.
\<close>

theorem save_cached_chart_keeps_stale_entries:
  "bucket_index 300 60 = Inr 5
   \<and> cache_path ''departments'' 4 = ''chart_departments_4.png''
   \<and> cache_path ''departments'' 50 = ''chart_departments_50.png''
   \<and> save_cached_chart ((\<noteq>) ''chart_departments_4.png'')
        [(''chart_departments_4.png'', [1])] 300 ''departments'' [2] 60
      = Inr [(''chart_departments_4.png'', [1]), (''chart_departments_5.png'', [2])]
   \<and> save_cached_chart ((\<noteq>) ''lock'')
        [(''chart_departments_50.png'', [1])] 300 ''departments'' [2] 60
      = Inr [(''chart_departments_50.png'', [1]), (''chart_departments_5.png'', [2])]"
  by code_simp

text \<open>
  Claim C1, amended. When \<open>save_cached_chart\<close> returns, the entry of the current bucket
  holds the bytes just written, and every entry of the same chart type whose removal
  succeeds is gone if its bucket is an earlier one (not negative and smaller than the
  current bucket) or, more generally, if the decimal rendering of its bucket does not
  begin with the rendering of the current bucket. An entry whose removal fails stays: the
  failure is swallowed.
\<close>

theorem save_cached_chart_cleanup:
  assumes "save_cached_chart removable fs now ct img w = Inr fs'"
      and "bucket_index now w = Inr b"
  shows "map_of fs' (cache_path ct b) = Some img
       \<and> (\<forall>b'. removable (cache_path ct b')
               \<and> ((0 \<le> b' \<and> b' < b) \<or> \<not> prefix (str_int b) (str_int b'))
             \<longrightarrow> map_of fs' (cache_path ct b') = None)"
proof (intro conjI allI impI)
  show "map_of fs' (cache_path ct b) = Some img"
    by (simp add: map_of_save_cached_chart[OF assms])
next
  fix b'
  assume h: "removable (cache_path ct b')
       \<and> ((0 \<le> b' \<and> b' < b) \<or> \<not> prefix (str_int b) (str_int b'))"
  then have "\<not> prefix (str_int b) (str_int b')"
    using str_int_prefix_le[of b' b] by blast
  with assms h show "map_of fs' (cache_path ct b') = None"
    by (blast intro: stale_entry_removed)
qed

theorem save_cached_chart_cleanup_witness:
  "save_cached_chart ((\<noteq>) ''chart_departments_3.png'')
      [(''chart_departments_3.png'', [1]), (''chart_departments_4.png'', [1]),
       (''chart_roles_4.png'', [9])] 300 ''departments'' [2] 60
     = Inr [(''chart_departments_3.png'', [1]), (''chart_roles_4.png'', [9]),
            (''chart_departments_5.png'', [2])]
   \<and> bucket_index 300 60 = Inr 5
   \<and> map_of [(''chart_departments_3.png'', [1::8 word]), (''chart_roles_4.png'', [9]),
            (''chart_departments_5.png'', [2])] (cache_path ''departments'' 5) = Some [2]
   \<and> (''chart_departments_3.png'' \<noteq> cache_path ''departments'' 4 \<and> (0::int) \<le> 4 \<and> (4::int) < 5)
   \<and> map_of [(''chart_departments_3.png'', [1::8 word]), (''chart_roles_4.png'', [9]),
            (''chart_departments_5.png'', [2])] (cache_path ''departments'' 4) = None"
proof -
  have h1: "save_cached_chart ((\<noteq>) ''chart_departments_3.png'')
      [(''chart_departments_3.png'', [1]), (''chart_departments_4.png'', [1]),
       (''chart_roles_4.png'', [9])] 300 ''departments'' [2] 60
     = Inr [(''chart_departments_3.png'', [1]), (''chart_roles_4.png'', [9]),
            (''chart_departments_5.png'', [2])]"
    by code_simp
  have h2: "bucket_index 300 60 = Inr 5" by code_simp
  have h3: "''chart_departments_3.png'' \<noteq> cache_path ''departments'' 4 \<and> (0::int) \<le> 4 \<and> (4::int) < 5"
    by code_simp
  note t = save_cached_chart_cleanup[OF h1 h2]
  from t have a: "map_of [(''chart_departments_3.png'', [1::8 word]), (''chart_roles_4.png'', [9]),
            (''chart_departments_5.png'', [2])] (cache_path ''departments'' 5) = Some [2]"
    by (rule conjunct1)
  from t h3 have b: "map_of [(''chart_departments_3.png'', [1::8 word]), (''chart_roles_4.png'', [9]),
            (''chart_departments_5.png'', [2])] (cache_path ''departments'' 4) = None"
    by blast
  from h1 h2 h3 a b show ?thesis by (intro conjI) blast+
qed

subsection \<open>Two stores in a row\<close>

text \<open>
  Claim C5, as stated, fails. From an empty directory, a store into bucket 5 and a store
  into bucket 6 leave both entries when the removal of the first fails (first two
  conjuncts). And when the directory already held the entry of bucket 501, a store into
  bucket 5 and a store into bucket 50 leave that entry beside the new one although every
  removal succeeds: its name starts with both keys (last two conjuncts).
\<close>

theorem two_stores_keep_two_entries:
  "save_cached_chart ((\<noteq>) ''lock'') [] 300 ''departments'' [1] 60
      = Inr [(''chart_departments_5.png'', [1])]
   \<and> save_cached_chart ((\<noteq>) ''chart_departments_5.png'')
        [(''chart_departments_5.png'', [1])] 360 ''departments'' [2] 60
      = Inr [(''chart_departments_5.png'', [1]), (''chart_departments_6.png'', [2])]
   \<and> save_cached_chart ((\<noteq>) ''lock'')
        [(''chart_departments_501.png'', [9])] 300 ''departments'' [1] 60
      = Inr [(''chart_departments_501.png'', [9]), (''chart_departments_5.png'', [1])]
   \<and> save_cached_chart ((\<noteq>) ''lock'')
        [(''chart_departments_501.png'', [9]), (''chart_departments_5.png'', [1])]
        3000 ''departments'' [2] 60
      = Inr [(''chart_departments_501.png'', [9]), (''chart_departments_50.png'', [2])]
   \<and> cache_path ''departments'' 501 = ''chart_departments_501.png''
   \<and> bucket_index 300 60 = Inr 5 \<and> bucket_index 360 60 = Inr 6
   \<and> bucket_index 3000 60 = Inr 50"
  by code_simp

text \<open>
  Claim C5, amended. Two stores for \<^verbatim>\<open>departments\<close>, the first into a bucket that is not
  negative and the second into a strictly greater one, leave exactly one entry for
  \<^verbatim>\<open>departments\<close>, holding the bytes of the second store, provided that the second store
  can remove every other \<^verbatim>\<open>departments\<close> entry it finds, and that every entry the
  directory held before the first store was of a bucket between 0 and the second
  store's bucket (or, more generally, of a bucket whose decimal rendering does not begin
  with the rendering of the second store's bucket).
\<close>

theorem two_stores_leave_one_entry:
  assumes s1: "save_cached_chart rm1 fs0 t1 ''departments'' B1 w1 = Inr fs1"
      and s2: "save_cached_chart rm2 fs1 t2 ''departments'' B2 w2 = Inr fs2"
      and b1: "bucket_index t1 w1 = Inr b1"
      and b2: "bucket_index t2 w2 = Inr b2"
      and adv: "0 \<le> b1 \<and> b1 < b2"
      and rm: "\<forall>b. b \<noteq> b2 \<and> cache_path ''departments'' b \<in> set (listdir fs1)
                  \<longrightarrow> rm2 (cache_path ''departments'' b)"
      and old: "\<forall>b. cache_path ''departments'' b \<in> set (listdir fs0)
                  \<longrightarrow> (0 \<le> b \<and> b \<le> b2) \<or> \<not> prefix (str_int b2) (str_int b)"
  shows "\<forall>b. map_of fs2 (cache_path ''departments'' b) = (if b = b2 then Some B2 else None)"
proof
  fix b
  show "map_of fs2 (cache_path ''departments'' b) = (if b = b2 then Some B2 else None)"
  proof (cases "b = b2")
    case True
    then show ?thesis by (simp add: map_of_save_cached_chart[OF s2 b2])
  next
    case False
    then have ne: "cache_path ''departments'' b \<noteq> cache_path ''departments'' b2"
      by (auto dest: cache_path_inj)
    show ?thesis
    proof (cases "cache_path ''departments'' b \<in> set (listdir fs1)")
      case present: True
      with rm False have r: "rm2 (cache_path ''departments'' b)" by blast
      from present have "map_of fs1 (cache_path ''departments'' b) \<noteq> None"
        by (simp only: entry_listed)
      then have "b = b1 \<or> map_of fs0 (cache_path ''departments'' b) \<noteq> None"
        by (auto simp: map_of_save_cached_chart[OF s1 b1] split: if_splits dest: cache_path_inj)
      then have "\<not> prefix (str_int b2) (str_int b)"
      proof
        assume "b = b1"
        with adv show ?thesis using str_int_prefix_le[of b1 b2] by simp
      next
        assume "map_of fs0 (cache_path ''departments'' b) \<noteq> None"
        then have "cache_path ''departments'' b \<in> set (listdir fs0)"
          by (simp only: entry_listed)
        with old have "(0 \<le> b \<and> b \<le> b2) \<or> \<not> prefix (str_int b2) (str_int b)" by blast
        with False show ?thesis using str_int_prefix_le[of b b2] by auto
      qed
      from stale_entry_removed[OF s2 b2 r this] False show ?thesis by simp
    next
      case False
      then have "map_of fs1 (cache_path ''departments'' b) = None"
        using entry_listed[of fs1] by blast
      with ne \<open>b \<noteq> b2\<close> show ?thesis by (simp add: map_of_save_cached_chart[OF s2 b2])
    qed
  qed
qed

theorem two_stores_leave_one_entry_witness:
  "save_cached_chart ((\<noteq>) ''lock'') [(''chart_departments_3.png'', [9])]
      300 ''departments'' [1] 60 = Inr [(''chart_departments_5.png'', [1])]
   \<and> save_cached_chart ((\<noteq>) ''lock'') [(''chart_departments_5.png'', [1])]
      360 ''departments'' [2] 60 = Inr [(''chart_departments_6.png'', [2])]
   \<and> bucket_index 300 60 = Inr 5 \<and> bucket_index 360 60 = Inr 6
   \<and> map_of [(''chart_departments_6.png'', [2::8 word])] (cache_path ''departments'' 6) = Some [2]
   \<and> map_of [(''chart_departments_6.png'', [2::8 word])] (cache_path ''departments'' 5) = None
   \<and> map_of [(''chart_departments_6.png'', [2::8 word])] (cache_path ''departments'' 3) = None"
proof -
  have s1: "save_cached_chart ((\<noteq>) ''lock'') [(''chart_departments_3.png'', [9])]
      300 ''departments'' [1] 60 = Inr [(''chart_departments_5.png'', [1])]"
    by code_simp
  have s2: "save_cached_chart ((\<noteq>) ''lock'') [(''chart_departments_5.png'', [1])]
      360 ''departments'' [2] 60 = Inr [(''chart_departments_6.png'', [2])]"
    by code_simp
  have b1: "bucket_index 300 60 = Inr 5" by code_simp
  have b2: "bucket_index 360 60 = Inr 6" by code_simp
  have adv: "(0::int) \<le> 5 \<and> (5::int) < 6" by simp
  have rm: "\<forall>b. b \<noteq> 6 \<and> cache_path ''departments'' b
                \<in> set (listdir [(''chart_departments_5.png'', [1::8 word])])
              \<longrightarrow> ''lock'' \<noteq> cache_path ''departments'' b"
    by (simp add: cache_path_def cache_key_def)
  have c3: "cache_path ''departments'' 3 = ''chart_departments_3.png''" by code_simp
  have old: "\<forall>b. cache_path ''departments'' b
                \<in> set (listdir [(''chart_departments_3.png'', [9::8 word])])
              \<longrightarrow> (0 \<le> b \<and> b \<le> 6) \<or> \<not> prefix (str_int 6) (str_int b)"
  proof (intro allI impI)
    fix b
    assume "cache_path ''departments'' b
              \<in> set (listdir [(''chart_departments_3.png'', [9::8 word])])"
    then have "cache_path ''departments'' b = cache_path ''departments'' 3"
      by (simp add: listdir_def c3)
    then have "b = 3" by (rule cache_path_inj)
    then show "(0 \<le> b \<and> b \<le> 6) \<or> \<not> prefix (str_int 6) (str_int b)" by simp
  qed
  note t = two_stores_leave_one_entry[OF s1 s2 b1 b2 adv rm old]
  from t have "map_of [(''chart_departments_6.png'', [2::8 word])] (cache_path ''departments'' 6)
                 = (if (6::int) = 6 then Some [2] else None)"
    by (rule spec)
  then have r6: "map_of [(''chart_departments_6.png'', [2::8 word])] (cache_path ''departments'' 6)
                 = Some [2]" by simp
  from t have "map_of [(''chart_departments_6.png'', [2::8 word])] (cache_path ''departments'' 5)
                 = (if (5::int) = 6 then Some [2] else None)"
    by (rule spec)
  then have r5: "map_of [(''chart_departments_6.png'', [2::8 word])] (cache_path ''departments'' 5)
                 = None" by simp
  from t have "map_of [(''chart_departments_6.png'', [2::8 word])] (cache_path ''departments'' 3)
                 = (if (3::int) = 6 then Some [2] else None)"
    by (rule spec)
  then have r3: "map_of [(''chart_departments_6.png'', [2::8 word])] (cache_path ''departments'' 3)
                 = None" by simp
  from s1 s2 b1 b2 r6 r5 r3 show ?thesis by (intro conjI)
qed

section \<open>Properties of the aggregation\<close>

subsection \<open>Counting labels\<close>

lemma map_of_insort_key:
  "fst y \<notin> fst ` set zs \<Longrightarrow>
   map_of (insort_key k y zs) a = (if a = fst y then Some (snd y) else map_of zs a)"
  by (induction zs) auto

lemma map_of_sort_key:
  "distinct (map fst ys) \<Longrightarrow> map_of (sort_key k ys) a = map_of ys a"
proof (induction ys)
  case Nil
  then show ?case by simp
next
  case (Cons y ys)
  then have nin: "fst y \<notin> fst ` set (sort_key k ys)" and d: "distinct (map fst ys)" by auto
  have "map_of (sort_key k (y # ys)) a = map_of (insort_key k y (sort_key k ys)) a"
    by (simp add: sort_key_simps)
  also have "\<dots> = (if a = fst y then Some (snd y) else map_of (sort_key k ys) a)"
    by (rule map_of_insort_key[OF nin])
  also have "\<dots> = map_of (y # ys) a"
    using Cons.IH[OF d] by simp
  finally show ?case .
qed

lemma map_of_value_counts:
  "map_of (value_counts xs) l = (if l \<in> set xs then Some (count_list xs l) else None)"
proof -
  let ?zs = "rev (remdups (rev xs))"
  let ?ys = "map (\<lambda>l. (l, count_list xs l)) ?zs"
  have "map fst ?ys = ?zs" by (simp add: comp_def)
  then have "distinct (map fst ?ys)" by simp
  then have "map_of (value_counts xs) l = map_of ?ys l"
    by (simp only: value_counts_def map_of_sort_key)
  also have "\<dots> = (if l \<in> set xs then Some (count_list xs l) else None)"
    by (simp add: map_of_map_restrict restrict_map_def)
  finally show ?thesis .
qed



subsection \<open>The empty table\<close>

text \<open>
  Claim C2, as stated, fails. On the empty table the view returns early with two keys,
  \<^verbatim>\<open>total_records\<close> and \<^verbatim>\<open>message\<close>: none of the four distributions is in the response, so
  none of them is an empty mapping.
\<close>

theorem analysis_empty_table_has_no_distributions:
  "map_of (DataAnalysisView_get []) ''checkin_vs_checkout'' = None
   \<and> map_of (DataAnalysisView_get []) ''department_distribution'' = None
   \<and> map_of (DataAnalysisView_get []) ''role_distribution'' = None
   \<and> map_of (DataAnalysisView_get []) ''daily_attendance'' = None
   \<and> map_of (DataAnalysisView_get []) ''department_distribution'' \<noteq> Some (JDict [])"
  by (simp add: DataAnalysisView_get_def)

text \<open>
  Claim C2, amended. On the empty table the view raises no error and returns a response
  with exactly the keys \<^verbatim>\<open>total_records\<close>, at 0, and \<^verbatim>\<open>message\<close>, at the text
  \<^verbatim>\<open>No data available\<close>.
\<close>

theorem analysis_empty_table:
  "map fst (DataAnalysisView_get []) = [''total_records'', ''message'']
   \<and> map_of (DataAnalysisView_get []) ''total_records'' = Some (JInt 0)
   \<and> map_of (DataAnalysisView_get []) ''message'' = Some (JStr ''No data available'')"
  by (simp add: DataAnalysisView_get_def)

subsection \<open>Grouping by day\<close>



section \<open>Properties of the chart views\<close>

lemma get_cached_chart_60: "\<exists>c. get_cached_chart fs t ct 60 = Inr c"
  by (simp add: get_cached_chart_def bucket_index_def)

lemma render_and_store_failed:
  "body lib employees = Inl e \<Longrightarrow>
   render_and_store ct pre body lib rm employees t2 fs
     = (Inr (png_response (error_image lib (pre @ str_error e))), fs)"
  by (simp add: render_and_store_def)

lemma render_and_store_rendered:
  "body lib employees = Inr chart_data \<Longrightarrow>
   \<exists>fs'. save_cached_chart rm fs t2 ct chart_data 60 = Inr fs'
       \<and> render_and_store ct pre body lib rm employees t2 fs = (Inr (png_response chart_data), fs')"
  by (simp add: render_and_store_def save_cached_chart_def bucket_index_def)

lemma chart_view_miss:
  assumes "\<forall>img. get_cached_chart fs t1 ct 60 = Inr (Some img) \<longrightarrow> img = []"
  shows "chart_view ct pre body lib rm employees t1 t2 fs
           = render_and_store ct pre body lib rm employees t2 fs"
proof -
  from get_cached_chart_60 obtain c where c: "get_cached_chart fs t1 ct 60 = Inr c" by blast
  show ?thesis
  proof (cases c)
    case None
    with c show ?thesis by (simp add: chart_view_def)
  next
    case (Some img)
    with c assms have "img = []" by simp
    with c Some show ?thesis by (simp add: chart_view_def)
  qed
qed

lemma chart_view_hit:
  assumes "get_cached_chart fs t1 ct 60 = Inr (Some img)" "img \<noteq> []"
  shows "chart_view ct pre body lib rm employees t1 t2 fs = (Inr (png_response img), fs)"
  using assms by (simp add: chart_view_def)

lemma chart_view_cases:
  "(\<forall>img. get_cached_chart fs t1 ct 60 = Inr (Some img) \<longrightarrow> img = [])
   \<or> (\<exists>img. get_cached_chart fs t1 ct 60 = Inr (Some img) \<and> img \<noteq> [])"
  by blast

lemma chart_view_failed_render:
  assumes "body lib employees = Inl e"
  shows "\<exists>r. chart_view ct pre body lib rm employees t1 t2 fs = (Inr r, fs)
           \<and> status r = 200 \<and> content_type r = ''image/png''
           \<and> ((\<forall>img. get_cached_chart fs t1 ct 60 = Inr (Some img) \<longrightarrow> img = [])
                \<longrightarrow> content r = error_image lib (pre @ str_error e))"
  using chart_view_cases[of fs t1 ct]
proof
  assume miss: "\<forall>img. get_cached_chart fs t1 ct 60 = Inr (Some img) \<longrightarrow> img = []"
  have "chart_view ct pre body lib rm employees t1 t2 fs
          = (Inr (png_response (error_image lib (pre @ str_error e))), fs)"
    by (simp only: chart_view_miss[OF miss]
          render_and_store_failed[where body=body and lib=lib and employees=employees, OF assms])
  then show ?thesis by (simp add: png_response_def)
next
  assume "\<exists>img. get_cached_chart fs t1 ct 60 = Inr (Some img) \<and> img \<noteq> []"
  then obtain img where hit: "get_cached_chart fs t1 ct 60 = Inr (Some img)" "img \<noteq> []"
    by blast
  have "chart_view ct pre body lib rm employees t1 t2 fs = (Inr (png_response img), fs)"
    by (rule chart_view_hit[OF hit])
  with hit show ?thesis by (simp add: png_response_def)
qed

lemma chart_views_unfold:
  assumes "(ct, pre, body, view) \<in> set chart_views"
  shows "view = chart_view ct pre body"
  using assms
  by (auto simp: chart_views_def DataVisualizationView_get_def department_chart_def
        role_chart_def attendance_chart_def signature_chart_def)



text \<open>
  Claim C10. For each of the five chart views: when the body of its \<^verbatim>\<open>try\<close> raises, the
  cache directory after the view is the directory before it (the handler does not call
  the store). When the body returns an image and no non-empty cached image was served,
  the view stores exactly that image under the current key and returns it; this is the
  path of the placeholder renders for missing data as well.
\<close>

theorem failed_render_leaves_cache_unchanged:
  assumes "(chart_type, error_prefix, body, view) \<in> set chart_views"
  shows "(\<forall>e. body lib employees = Inl e
             \<longrightarrow> snd (view lib removable employees t_lookup t_store fs) = fs)
       \<and> (\<forall>chart_data. body lib employees = Inr chart_data
             \<and> (\<forall>img. get_cached_chart fs t_lookup chart_type 60 = Inr (Some img) \<longrightarrow> img = [])
             \<longrightarrow> save_cached_chart removable fs t_store chart_type chart_data 60
                   = Inr (snd (view lib removable employees t_lookup t_store fs))
               \<and> fst (view lib removable employees t_lookup t_store fs)
                   = Inr (png_response chart_data))"
proof (intro conjI allI impI)
  fix e
  assume "body lib employees = Inl e"
  from chart_view_failed_render[where body=body and lib=lib and employees=employees
         and ct=chart_type and pre=error_prefix and rm=removable and ?t1.0=t_lookup
         and ?t2.0=t_store and fs=fs, OF this]
  show "snd (view lib removable employees t_lookup t_store fs) = fs"
    by (auto simp: chart_views_unfold[OF assms])
next
  fix chart_data
  assume h: "body lib employees = Inr chart_data
     \<and> (\<forall>img. get_cached_chart fs t_lookup chart_type 60 = Inr (Some img) \<longrightarrow> img = [])"
  then have miss: "\<forall>img. get_cached_chart fs t_lookup chart_type 60 = Inr (Some img) \<longrightarrow> img = []"
    and ok: "body lib employees = Inr chart_data" by blast+
  from render_and_store_rendered[where body=body and lib=lib and employees=employees
         and rm=removable and fs=fs and ?t2.0=t_store and ct=chart_type and pre=error_prefix, OF ok]
  obtain fs' where fs': "save_cached_chart removable fs t_store chart_type chart_data 60 = Inr fs'"
    "render_and_store chart_type error_prefix body lib removable employees t_store fs
       = (Inr (png_response chart_data), fs')" by blast
  have v: "view lib removable employees t_lookup t_store fs = (Inr (png_response chart_data), fs')"
    by (simp only: chart_views_unfold[OF assms] chart_view_miss[OF miss] fs'(2))
  from v fs'(1)
  show "save_cached_chart removable fs t_store chart_type chart_data 60
          = Inr (snd (view lib removable employees t_lookup t_store fs))" by simp
  from v show "fst (view lib removable employees t_lookup t_store fs)
          = Inr (png_response chart_data)" by simp
qed

theorem failed_render_leaves_cache_unchanged_witness:
  "(''departments'', ''Error generating chart: '', department_render, department_chart)
      \<in> set chart_views
   \<and> department_render failing_plotlib [] = Inl (Exception ''no memory'')
   \<and> snd (department_chart failing_plotlib ((\<noteq>) ''lock'') [] 300 301
             [(''chart_departments_4.png'', [1])]) = [(''chart_departments_4.png'', [1])]
   \<and> department_render working_plotlib [] = Inr [137, 80, 78, 71, 0]
   \<and> get_cached_chart [(''chart_departments_4.png'', [1])] 300 ''departments'' 60 = Inr None
   \<and> snd (department_chart working_plotlib ((\<noteq>) ''lock'') [] 300 301
             [(''chart_departments_4.png'', [1])])
       = [(''chart_departments_5.png'', [137, 80, 78, 71, 0])]
   \<and> fst (department_chart working_plotlib ((\<noteq>) ''lock'') [] 300 301
             [(''chart_departments_4.png'', [1])])
       = Inr (png_response [137, 80, 78, 71, 0])"
proof -
  have m: "(''departments'', ''Error generating chart: '', department_render, department_chart)
      \<in> set chart_views"
    by (simp add: chart_views_def)
  have b: "department_render failing_plotlib [] = Inl (Exception ''no memory'')"
    by (simp add: department_render_def render_def department_figure_def failing_plotlib_def)
  have ok: "department_render working_plotlib [] = Inr [137, 80, 78, 71, 0]"
    by (simp add: department_render_def render_def department_figure_def working_plotlib_def)
  have g: "get_cached_chart [(''chart_departments_4.png'', [1])] 300 ''departments'' 60 = Inr None"
    by code_simp
  then have miss: "\<forall>img. get_cached_chart [(''chart_departments_4.png'', [1])] 300
                          ''departments'' 60 = Inr (Some img) \<longrightarrow> img = []"
    by simp
  have s: "save_cached_chart ((\<noteq>) ''lock'') [(''chart_departments_4.png'', [1])] 301
             ''departments'' [137, 80, 78, 71, 0] 60
           = Inr [(''chart_departments_5.png'', [137, 80, 78, 71, 0])]"
    by code_simp
  note f = failed_render_leaves_cache_unchanged[OF m, where lib=failing_plotlib
             and employees="[]" and removable="(\<noteq>) ''lock''" and t_lookup=300
             and t_store=301 and fs="[(''chart_departments_4.png'', [1])]"]
  from f b have u: "snd (department_chart failing_plotlib ((\<noteq>) ''lock'') [] 300 301
             [(''chart_departments_4.png'', [1])]) = [(''chart_departments_4.png'', [1])]"
    by blast
  note w = failed_render_leaves_cache_unchanged[OF m, where lib=working_plotlib
             and employees="[]" and removable="(\<noteq>) ''lock''" and t_lookup=300
             and t_store=301 and fs="[(''chart_departments_4.png'', [1])]"]
  from w ok miss have
    st: "save_cached_chart ((\<noteq>) ''lock'') [(''chart_departments_4.png'', [1])] 301
             ''departments'' [137, 80, 78, 71, 0] 60
           = Inr (snd (department_chart working_plotlib ((\<noteq>) ''lock'') [] 300 301
                    [(''chart_departments_4.png'', [1])]))"
    and rs: "fst (department_chart working_plotlib ((\<noteq>) ''lock'') [] 300 301
             [(''chart_departments_4.png'', [1])]) = Inr (png_response [137, 80, 78, 71, 0])"
    by blast+
  from st s have v: "snd (department_chart working_plotlib ((\<noteq>) ''lock'') [] 300 301
             [(''chart_departments_4.png'', [1])])
       = [(''chart_departments_5.png'', [137, 80, 78, 71, 0])]"
    by simp
  from m b u ok g v rs show ?thesis by (intro conjI)
qed

end
